theory Spec2Isabelle
  imports Complex_Main
begin

section \<open>Clock values\<close>

text \<open>
  The controller in \<^verbatim>\<open>src/aqi/sensor.py\<close> reads the host clock with
  \<^verbatim>\<open>datetime.datetime.now()\<close>. A naive datetime is modelled by the number of
  microseconds since the start of the proleptic calendar, so that the difference of two
  datetimes (a timedelta) is the difference of two integers. The time of day of a datetime
  (\<^verbatim>\<open>.time()\<close>) has the four fields Python compares, in this order.
\<close>

type_synonym datetime = int

type_synonym timedelta = int

record clock_time =
  hour :: nat
  minute :: nat
  second :: nat
  microsecond :: nat

definition time_of :: "datetime \<Rightarrow> clock_time" where
  "time_of d =
     (let us = nat (d mod 86400000000)
      in \<lparr>hour = us div 3600000000,
          minute = (us div 60000000) mod 60,
          second = (us div 1000000) mod 60,
          microsecond = us mod 1000000\<rparr>)"

text \<open>
  Naive \<^verbatim>\<open>datetime.time\<close> values compare as the tuples
  (hour, minute, second, microsecond), lexicographically.
\<close>

definition time_lt :: "clock_time \<Rightarrow> clock_time \<Rightarrow> bool" where
  "time_lt a b =
     (hour a < hour b \<or>
      (hour a = hour b \<and>
       (minute a < minute b \<or>
        (minute a = minute b \<and>
         (second a < second b \<or>
          (second a = second b \<and> microsecond a < microsecond b))))))"

definition time_le :: "clock_time \<Rightarrow> clock_time \<Rightarrow> bool" where
  "time_le a b =
     (time_lt a b \<or>
      (hour a = hour b \<and> minute a = minute b \<and> second a = second b \<and>
       microsecond a = microsecond b))"

text \<open>\<^verbatim>\<open>datetime.time(hour=21)\<close> and \<^verbatim>\<open>datetime.time(hour=9, minute=30)\<close>.\<close>

definition night_start :: clock_time where
  "night_start = \<lparr>hour = 21, minute = 0, second = 0, microsecond = 0\<rparr>"

definition night_end :: clock_time where
  "night_end = \<lparr>hour = 9, minute = 30, second = 0, microsecond = 0\<rparr>"

text \<open>
  The test of \<^verbatim>\<open>is_night\<close> on the time of day it has read:
  \<^verbatim>\<open>return now >= night_start and now < night_end\<close>.
\<close>

definition night_test :: "clock_time \<Rightarrow> bool" where
  "night_test now = (time_le night_start now \<and> time_lt now night_end)"

text \<open>
  The night window as the specification words it: night is the interval from 21:00
  (included) to 09:30 (excluded), that is, 21:00 \<open>\<le>\<close> t or t \<open><\<close> 09:30.
\<close>

definition spec_night :: "clock_time \<Rightarrow> bool" where
  "spec_night t = (time_le night_start t \<or> time_lt t night_end)"

section \<open>Readings, modes and collaborators\<close>

text \<open>
  Modelled from the spec: the class \<^verbatim>\<open>Reading\<close> (module \<^verbatim>\<open>aqi.reading\<close>) is
  not among the sources. The specification describes a reading as a timestamp, the raw
  concentrations PM2.5 and PM10, and the index values and category bands the calculator
  adds; \<^verbatim>\<open>aggregate_readings\<close> reads the attributes \<^verbatim>\<open>time\<close>, \<^verbatim>\<open>pm25\<close> and
  \<^verbatim>\<open>pm10\<close> and does arithmetic on all three, so they are numbers here (Python's
  floats are idealised as reals). The raw measurement handed to the calculator is the
  dictionary with the keys \<^verbatim>\<open>time\<close>, \<^verbatim>\<open>pm25\<close>, \<^verbatim>\<open>pm10\<close>; the computed fields
  of a reading are kept abstract in \<open>indices\<close>.
\<close>

record raw_measurement =
  time :: real
  pm25 :: real
  pm10 :: real

record 'x reading = raw_measurement +
  indices :: 'x

text \<open>
  Modelled from the spec: the registry \<^verbatim>\<open>measurement_modes.modes\<close> is not among the
  sources; a mode has the five fields the controller reads. \<^verbatim>\<open>measurement_period\<close>
  and \<^verbatim>\<open>sleep_time\<close> are handed to \<^verbatim>\<open>time.sleep\<close> (seconds, never negative);
  \<^verbatim>\<open>monitoring_duration\<close> is compared with a timedelta and may be \<^verbatim>\<open>None\<close>;
  \<^verbatim>\<open>aggregation\<close> is \<^verbatim>\<open>None\<close> or a string.
\<close>

record mode =
  measurement_period :: nat
  sleep_time :: nat
  monitoring_duration :: "timedelta option"
  aggregation :: "string option"
  night_monitoring :: bool

text \<open>
  Exceptions are values. \<open>CollaboratorFault\<close> is whatever the sensor driver or the
  calculator raises, identified by a code.
\<close>

datatype error =
  IndexError
  | TypeError
  | IsADirectoryError
  | FileNotFoundError
  | CollaboratorFault nat

datatype ('a, 's) result = Ok 'a 's | Raise error 's

text \<open>
  The loops of \<^verbatim>\<open>monitor\<close> are \<^verbatim>\<open>while True\<close> without a \<^verbatim>\<open>break\<close>: they end
  only by an exception. Run for a bounded number of iterations, a loop has either raised
  or is still running.
\<close>

datatype 's outcome = Raised error 's | Running 's

text \<open>
  What the controller does to the outside world, in order: the calls to the sensor
  driver, the blocking waits, what is printed, and the files it creates and writes. The
  debug messages of the logger are not recorded.
\<close>

datatype 'j event =
  PrintMode
  | PrintDict 'j
  | PrintTraceback error
  | SensorWake
  | SensorSleep
  | SensorQuery
  | TimeSleep nat
  | FileCreate string
  | FileWrite string string

text \<open>
  A path names nothing, a regular file with its text, or a directory (which
  \<^verbatim>\<open>os.path.exists\<close> accepts and \<^verbatim>\<open>open\<close> refuses).
\<close>

datatype node = File string | Directory

text \<open>
  The mutable part: the buffer \<^verbatim>\<open>self.readings\<close>, the file system, the events so
  far, and how many times the sensor has been queried and the clock read.
\<close>

record ('x, 'j) state =
  readings :: "'x reading list"
  files :: "string \<rightharpoonup> node"
  trace :: "'j event list"
  queries :: nat
  ticks :: nat

text \<open>
  The fixed part: the selected mode, and the collaborators that are not among the
  sources, taken as parameters. The sensor driver's \<^verbatim>\<open>query_data\<close> and the host clock
  answer by the number of the call; the calculator is a function of the raw measurement;
  the driver's query and the calculator may raise, with a code. \<open>'j\<close> is the type of
  the values \<^verbatim>\<open>json.load\<close> returns; \<open>None\<close> stands for an exception of
  \<^verbatim>\<open>json.load\<close>, of iterating over its result, or of \<^verbatim>\<open>Reading.from_dict\<close>.
  \<^verbatim>\<open>to_dict\<close> and \<^verbatim>\<open>json.dump\<close> return, and so do the driver's \<^verbatim>\<open>wake\<close> and
  \<^verbatim>\<open>sleep\<close> and the waits of \<^verbatim>\<open>time.sleep\<close>.
\<close>

record ('x, 'j) env =
  mode :: mode
  query_data :: "nat \<Rightarrow> nat + raw_measurement"
  calculate_aqis_and_bands :: "raw_measurement \<Rightarrow> nat + 'x reading"
  clock :: "nat \<Rightarrow> datetime"
  json_load :: "string \<Rightarrow> 'j option"
  json_iter :: "'j \<Rightarrow> 'j list option"
  from_dict :: "'j \<Rightarrow> 'x reading option"
  to_dict :: "'x reading \<Rightarrow> 'j"
  json_dump :: "'j list \<Rightarrow> string"

definition READINGS_FILE :: string where
  "READINGS_FILE = ''readings.json''"

section \<open>Primitive effects\<close>

definition now :: "('x, 'j) env \<Rightarrow> ('x, 'j) state \<Rightarrow> datetime \<times> ('x, 'j) state" where
  "now env s = (clock env (ticks s), s\<lparr>ticks := Suc (ticks s)\<rparr>)"

definition emit :: "'j event list \<Rightarrow> ('x, 'j) state \<Rightarrow> ('x, 'j) state" where
  "emit evs s = s\<lparr>trace := trace s @ evs\<rparr>"

definition instruction_set_wake :: "('x, 'j) state \<Rightarrow> ('x, 'j) state" where
  "instruction_set_wake s = emit [SensorWake] s"

definition instruction_set_sleep :: "('x, 'j) state \<Rightarrow> ('x, 'j) state" where
  "instruction_set_sleep s = emit [SensorSleep] s"

definition time_sleep :: "nat \<Rightarrow> ('x, 'j) state \<Rightarrow> ('x, 'j) state" where
  "time_sleep d s = emit [TimeSleep d] s"

text \<open>
  \<^verbatim>\<open>xs[i]\<close>: a negative index counts from the end, and an index outside the list
  raises \<^verbatim>\<open>IndexError\<close>.
\<close>

definition py_index :: "'a list \<Rightarrow> int \<Rightarrow> error + 'a" where
  "py_index xs i =
     (let k = (if i < 0 then int (length xs) + i else i)
      in if k < 0 \<or> int (length xs) \<le> k then Inl IndexError else Inr (xs ! nat k))"

text \<open>\<^verbatim>\<open>sum(...)\<close> adds from the left, starting at 0.\<close>

definition py_sum :: "real list \<Rightarrow> real" where
  "py_sum xs = foldl (+) 0 xs"

section \<open>The controller\<close>

text \<open>\<^verbatim>\<open>is_night\<close> reads the clock and tests the time of day.\<close>

definition is_night :: "('x, 'j) env \<Rightarrow> ('x, 'j) state \<Rightarrow> bool \<times> ('x, 'j) state" where
  "is_night env s = (case now env s of (d, s1) \<Rightarrow> (night_test (time_of d), s1))"

text \<open>
  \<^verbatim>\<open>take_reading\<close>: query the sensor, compute the reading, append it to the buffer,
  print it, wait for the measurement period.
\<close>

definition take_reading :: "('x, 'j) env \<Rightarrow> ('x, 'j) state \<Rightarrow> (unit, ('x, 'j) state) result" where
  "take_reading env s =
     (let s1 = emit [SensorQuery] (s\<lparr>queries := Suc (queries s)\<rparr>)
      in case query_data env (queries s) of
           Inl f \<Rightarrow> Raise (CollaboratorFault f) s1
         | Inr raw \<Rightarrow>
             (case calculate_aqis_and_bands env raw of
                Inl f \<Rightarrow> Raise (CollaboratorFault f) s1
              | Inr r \<Rightarrow>
                  Ok () (time_sleep (measurement_period (mode env))
                          (emit [PrintDict (to_dict env r)]
                            (s1\<lparr>readings := readings s1 @ [r]\<rparr>)))))"

text \<open>
  The raw measurement \<^verbatim>\<open>aggregate_readings\<close> builds from the first and the last
  reading and the whole buffer.
\<close>

definition raw_average_reading ::
  "'x reading \<Rightarrow> 'x reading \<Rightarrow> 'x reading list \<Rightarrow> raw_measurement" where
  "raw_average_reading r0 rl rs =
     \<lparr>time = time r0 + (time r0 + time rl) / 2,
      pm25 = py_sum (map pm25 rs),
      pm10 = py_sum (map pm10 rs)\<rparr>"

text \<open>
  \<^verbatim>\<open>aggregate_readings\<close>: nothing when the mode's aggregation is falsy (\<^verbatim>\<open>None\<close> or
  the empty string); for \<^verbatim>\<open>'mean'\<close> the buffer is replaced by the calculator's
  reading of the raw measurement above; nothing for any other string. The buffer is
  indexed at 0 and at -1 before anything else is computed.
\<close>

definition aggregate_readings ::
  "('x, 'j) env \<Rightarrow> ('x, 'j) state \<Rightarrow> (unit, ('x, 'j) state) result" where
  "aggregate_readings env s =
     (case aggregation (mode env) of
        None \<Rightarrow> Ok () s
      | Some a \<Rightarrow>
          if a = [] then Ok () s
          else if a = ''mean'' then
            (case py_index (readings s) 0 of
               Inl e \<Rightarrow> Raise e s
             | Inr r0 \<Rightarrow>
                 (case py_index (readings s) (- 1) of
                    Inl e \<Rightarrow> Raise e s
                  | Inr rl \<Rightarrow>
                      (case calculate_aqis_and_bands env
                              (raw_average_reading r0 rl (readings s)) of
                         Inl f \<Rightarrow> Raise (CollaboratorFault f) s
                       | Inr r \<Rightarrow> Ok () (s\<lparr>readings := [r]\<rparr>))))
          else Ok () s)"

text \<open>
  \<^verbatim>\<open>[Reading.from_dict(reading) for reading in json.load(f)]\<close>: the text is loaded,
  the loaded value is iterated over, and each element is converted in turn; the first
  exception ends the whole expression.
\<close>

definition parse_readings :: "('x, 'j) env \<Rightarrow> string \<Rightarrow> 'x reading list option" where
  "parse_readings env text =
     (case json_load env text of
        None \<Rightarrow> None
      | Some j \<Rightarrow>
          (case json_iter env j of
             None \<Rightarrow> None
           | Some ds \<Rightarrow> those (map (from_dict env) ds)))"

text \<open>The \<^verbatim>\<open>try\<close> with its bare \<^verbatim>\<open>except\<close>: any exception gives the empty list.\<close>

definition existing_data :: "('x, 'j) env \<Rightarrow> string \<Rightarrow> 'x reading list" where
  "existing_data env text =
     (case parse_readings env text of None \<Rightarrow> [] | Some rs \<Rightarrow> rs)"

definition dump_readings :: "('x, 'j) env \<Rightarrow> 'x reading list \<Rightarrow> string" where
  "dump_readings env rs = json_dump env (map (to_dict env) rs)"

text \<open>
  \<^verbatim>\<open>save_readings_to_file\<close>: create the file when nothing exists at the path, read
  it, parse it or take the empty list, write existing data followed by the buffer, and
  empty the buffer. Opening a directory raises (outside the \<^verbatim>\<open>try\<close>).
\<close>

definition save_readings_to_file ::
  "('x, 'j) env \<Rightarrow> string \<Rightarrow> ('x, 'j) state \<Rightarrow> (unit, ('x, 'j) state) result" where
  "save_readings_to_file env path s =
     (let s1 = (if files s path = None
                then emit [FileCreate path] (s\<lparr>files := (files s)(path \<mapsto> File [])\<rparr>)
                else s)
      in case files s1 path of
           None \<Rightarrow> Raise FileNotFoundError s1
         | Some Directory \<Rightarrow> Raise IsADirectoryError s1
         | Some (File content) \<Rightarrow>
             (let all_data = existing_data env content @ readings s1;
                  out = dump_readings env all_data
              in Ok () (emit [FileWrite path out]
                         (s1\<lparr>files := (files s1)(path \<mapsto> File out), readings := []\<rparr>))))"

text \<open>
  \<^verbatim>\<open>_carry_out_monitoring_cycle\<close> (the leading underscore is dropped): inside the
  window one reading is taken; at its end the buffer is aggregated and saved, the sensor
  sleeps, the controller waits, the sensor wakes, and the clock is read for the new
  window start. Comparing a timedelta with \<^verbatim>\<open>None\<close> raises \<^verbatim>\<open>TypeError\<close>.
\<close>

definition carry_out_monitoring_cycle ::
  "('x, 'j) env \<Rightarrow> datetime \<Rightarrow> ('x, 'j) state \<Rightarrow> (datetime, ('x, 'j) state) result" where
  "carry_out_monitoring_cycle env start_time s =
     (case now env s of
        (t, s1) \<Rightarrow>
          (case monitoring_duration (mode env) of
             None \<Rightarrow> Raise TypeError s1
           | Some d \<Rightarrow>
               if t - start_time < d then
                 (case take_reading env s1 of
                    Raise e s2 \<Rightarrow> Raise e s2
                  | Ok u s2 \<Rightarrow> Ok start_time s2)
               else
                 (case aggregate_readings env s1 of
                    Raise e s2 \<Rightarrow> Raise e s2
                  | Ok u s2 \<Rightarrow>
                      (case save_readings_to_file env READINGS_FILE s2 of
                         Raise e s3 \<Rightarrow> Raise e s3
                       | Ok v s3 \<Rightarrow>
                           (case now env
                                   (instruction_set_wake
                                     (time_sleep (sleep_time (mode env))
                                       (instruction_set_sleep s3))) of
                              (t', s4) \<Rightarrow> Ok t' s4)))))"



text \<open>Python's truth value of \<^verbatim>\<open>mode.monitoring_duration\<close>.\<close>

definition duration_set :: "timedelta option \<Rightarrow> bool" where
  "duration_set d = (case d of None \<Rightarrow> False | Some x \<Rightarrow> x \<noteq> 0)"

text \<open>The body of the loop of continuous mode (\<^verbatim>\<open>sleep_time == 0\<close>).\<close>

definition continuous_iteration ::
  "('x, 'j) env \<Rightarrow> ('x, 'j) state \<Rightarrow> (unit, ('x, 'j) state) result" where
  "continuous_iteration env s =
     (if \<not> night_monitoring (mode env) then
        (case is_night env s of
           (night, s1) \<Rightarrow> if night then Ok () s1 else take_reading env s1)
      else take_reading env s)"

text \<open>The body of the loop of the other branch; it carries the window start.\<close>

definition windowed_iteration ::
  "('x, 'j) env \<Rightarrow> datetime \<Rightarrow> ('x, 'j) state \<Rightarrow> (datetime, ('x, 'j) state) result" where
  "windowed_iteration env start_time s =
     (if \<not> night_monitoring (mode env) then
        (case is_night env s of
           (night, s1) \<Rightarrow>
             if night then Ok start_time s1
             else if duration_set (monitoring_duration (mode env)) then
               carry_out_monitoring_cycle env start_time s1
             else
               (case take_reading env s1 of
                  Raise e s2 \<Rightarrow> Raise e s2
                | Ok u s2 \<Rightarrow> Ok start_time s2))
      else if duration_set (monitoring_duration (mode env)) then
        carry_out_monitoring_cycle env start_time s
      else
        (case take_reading env s of
           Raise e s2 \<Rightarrow> Raise e s2
         | Ok u s2 \<Rightarrow> Ok start_time s2))"

fun continuous_loop ::
  "('x, 'j) env \<Rightarrow> nat \<Rightarrow> ('x, 'j) state \<Rightarrow> ('x, 'j) state outcome" where
  "continuous_loop env 0 s = Running s"
| "continuous_loop env (Suc n) s =
     (case continuous_iteration env s of
        Raise e s1 \<Rightarrow> Raised e s1
      | Ok u s1 \<Rightarrow> continuous_loop env n s1)"

fun windowed_loop ::
  "('x, 'j) env \<Rightarrow> nat \<Rightarrow> datetime \<Rightarrow> ('x, 'j) state \<Rightarrow> ('x, 'j) state outcome" where
  "windowed_loop env 0 start_time s = Running s"
| "windowed_loop env (Suc n) start_time s =
     (case windowed_iteration env start_time s of
        Raise e s1 \<Rightarrow> Raised e s1
      | Ok start_time' s1 \<Rightarrow> windowed_loop env n start_time' s1)"

text \<open>The body of the \<^verbatim>\<open>with\<close> statement of \<^verbatim>\<open>monitor\<close>, for n iterations.\<close>

definition monitor_body ::
  "('x, 'j) env \<Rightarrow> nat \<Rightarrow> datetime \<Rightarrow> ('x, 'j) state \<Rightarrow> ('x, 'j) state outcome" where
  "monitor_body env n start_time s =
     (if sleep_time (mode env) = 0 then continuous_loop env n s
      else windowed_loop env n start_time s)"



section \<open>Observations\<close>

text \<open>
  The records a path holds, as \<^verbatim>\<open>save_readings_to_file\<close> reads them: the readings
  that parse from the file's text, none when the text does not parse. A path that names
  nothing is read as the empty file the call creates first.
\<close>

definition file_records :: "('x, 'j) env \<Rightarrow> ('x, 'j) state \<Rightarrow> string \<Rightarrow> 'x reading list" where
  "file_records env s path =
     (case files s path of
        None \<Rightarrow> existing_data env []
      | Some Directory \<Rightarrow> []
      | Some (File content) \<Rightarrow> existing_data env content)"

text \<open>The state a run has reached, and the events added between two states.\<close>

definition outcome_state :: "'s outcome \<Rightarrow> 's" where
  "outcome_state r = (case r of Raised e s \<Rightarrow> s | Running s \<Rightarrow> s)"

definition result_state :: "('a, 's) result \<Rightarrow> 's" where
  "result_state r = (case r of Ok v s \<Rightarrow> s | Raise e s \<Rightarrow> s)"

definition events_since :: "('x, 'j) state \<Rightarrow> ('x, 'j) state \<Rightarrow> 'j event list" where
  "events_since s s' = drop (length (trace s)) (trace s')"


text \<open>
  The events of taking readings: a query of the sensor, the printing of a reading, and
  the wait for the measurement period.
\<close>

definition reading_events :: "('x, 'j) env \<Rightarrow> 'j event set" where
  "reading_events env =
     insert SensorQuery (insert (TimeSleep (measurement_period (mode env))) (range PrintDict))"

section \<open>A mock sensor\<close>

text \<open>
  A small concrete environment on which the model runs: a driver that returns two
  measurements and then fails, a calculator that adds nothing, a clock that advances by
  one second at each reading, and a codec given by a table of the texts used below. The
  mode is ten seconds of monitoring, five seconds of sleep, aggregation by
  \<^verbatim>\<open>'mean'\<close>, no night monitoring.
\<close>

datatype mock_json = MRecord real real real | MList "mock_json list" | MNumber real

definition mock_to_dict :: "unit reading \<Rightarrow> mock_json" where
  "mock_to_dict r = MRecord (time r) (pm25 r) (pm10 r)"

fun mock_from_dict :: "mock_json \<Rightarrow> unit reading option" where
  "mock_from_dict (MRecord t a b) = Some \<lparr>time = t, pm25 = a, pm10 = b, indices = ()\<rparr>"
| "mock_from_dict j = None"

fun mock_iter :: "mock_json \<Rightarrow> mock_json list option" where
  "mock_iter (MList js) = Some js"
| "mock_iter j = None"

definition mock_table :: "(string \<times> mock_json list) list" where
  "mock_table =
     [(''[]'', []),
      (''[A]'', [MRecord 0 5 10]),
      (''[B]'', [MRecord 1 7 9]),
      (''[C]'', [MRecord 2 3 4]),
      (''[A, B]'', [MRecord 0 5 10, MRecord 1 7 9]),
      (''[M]'', [MRecord (1/2) 12 19])]"

definition mock_load :: "string \<Rightarrow> mock_json option" where
  "mock_load text =
     (if text = ''7'' then Some (MNumber 7) else map_option MList (map_of mock_table text))"

definition mock_dump :: "mock_json list \<Rightarrow> string" where
  "mock_dump js =
     (case map_of (map (\<lambda>(k, v). (v, k)) mock_table) js of None \<Rightarrow> ''[?]'' | Some k \<Rightarrow> k)"

definition mock_mode :: mode where
  "mock_mode =
     \<lparr>measurement_period = 1, sleep_time = 5, monitoring_duration = Some 10000000,
      aggregation = Some ''mean'', night_monitoring = False\<rparr>"

definition mock_env :: "(unit, mock_json) env" where
  "mock_env =
     \<lparr>mode = mock_mode,
      query_data =
        (\<lambda>n. if n = 0 then Inr \<lparr>time = 0, pm25 = 5, pm10 = 10\<rparr>
             else if n = 1 then Inr \<lparr>time = 1, pm25 = 7, pm10 = 9\<rparr>
             else Inl 3),
      calculate_aqis_and_bands =
        (\<lambda>raw. Inr \<lparr>time = time raw, pm25 = pm25 raw, pm10 = pm10 raw, indices = ()\<rparr>),
      clock = (\<lambda>n. 1000000 * int n),
      json_load = mock_load,
      json_iter = mock_iter,
      from_dict = mock_from_dict,
      to_dict = mock_to_dict,
      json_dump = mock_dump\<rparr>"

definition mock_state :: "unit reading list \<Rightarrow> (string \<rightharpoonup> node) \<Rightarrow> (unit, mock_json) state" where
  "mock_state rs fs = \<lparr>readings = rs, files = fs, trace = [], queries = 0, ticks = 0\<rparr>"

definition reading_A :: "unit reading" where
  "reading_A = \<lparr>time = 0, pm25 = 5, pm10 = 10, indices = ()\<rparr>"

definition reading_B :: "unit reading" where
  "reading_B = \<lparr>time = 1, pm25 = 7, pm10 = 9, indices = ()\<rparr>"

definition reading_C :: "unit reading" where
  "reading_C = \<lparr>time = 2, pm25 = 3, pm10 = 4, indices = ()\<rparr>"

section \<open>Basic facts\<close>

lemmas mock_defs =
  mock_env_def mock_mode_def mock_state_def mock_load_def mock_dump_def mock_table_def
  mock_to_dict_def reading_A_def reading_B_def reading_C_def READINGS_FILE_def

lemma emit_fields [simp]:
  "readings (emit evs s) = readings s"
  "files (emit evs s) = files s"
  "trace (emit evs s) = trace s @ evs"
  "queries (emit evs s) = queries s"
  "ticks (emit evs s) = ticks s"
  by (simp_all add: emit_def)

section \<open>The night-time gate\<close>

lemma time_lt_trans: "time_lt a b \<Longrightarrow> time_lt b c \<Longrightarrow> time_lt a c"
  unfolding time_lt_def by auto

lemma time_lt_irrefl: "\<not> time_lt a a"
  unfolding time_lt_def by simp

lemma time_le_lt_trans: "time_le a b \<Longrightarrow> time_lt b c \<Longrightarrow> time_lt a c"
  unfolding time_le_def time_lt_def by auto

lemma night_bounds_ordered: "time_lt night_end night_start"
  unfolding time_lt_def night_start_def night_end_def by simp

text \<open>
  The two bounds are tested with \<^verbatim>\<open>and\<close>, and 21:00 lies after 09:30, so no time of
  day passes the test.
\<close>

lemma night_test_never: "\<not> night_test t"
proof
  assume "night_test t"
  then have "time_le night_start t" and "time_lt t night_end"
    unfolding night_test_def by simp_all
  then have "time_lt night_start night_end"
    by (rule time_le_lt_trans)
  with night_bounds_ordered have "time_lt night_end night_end"
    by (rule time_lt_trans)
  then show False
    by (simp add: time_lt_irrefl)
qed

text \<open>
  Claim C2 (night is the interval [21:00, 09:30): \<^verbatim>\<open>is_night\<close> is true iff
  21:00 \<open>\<le>\<close> t or t \<open><\<close> 09:30). With the clock at 22:00:00 the specified
  window holds, and \<^verbatim>\<open>is_night\<close> answers false.
\<close>

theorem is_night_at_2200:
  "time_of 79200000000 = \<lparr>hour = 22, minute = 0, second = 0, microsecond = 0\<rparr> \<and>
   fst (is_night (mock_env\<lparr>clock := (\<lambda>n. 79200000000)\<rparr>) (mock_state [] Map.empty)) = False \<and>
   night_test \<lparr>hour = 22, minute = 0, second = 0, microsecond = 0\<rparr> = False \<and>
   spec_night \<lparr>hour = 22, minute = 0, second = 0, microsecond = 0\<rparr> = True"
proof -
  have t: "time_of 79200000000 = \<lparr>hour = 22, minute = 0, second = 0, microsecond = 0\<rparr>"
    by (simp add: time_of_def)
  have code: "night_test \<lparr>hour = 22, minute = 0, second = 0, microsecond = 0\<rparr> = False"
    by (simp add: night_test_def time_le_def time_lt_def night_start_def night_end_def)
  have spec: "spec_night \<lparr>hour = 22, minute = 0, second = 0, microsecond = 0\<rparr> = True"
    by (simp add: spec_night_def time_le_def time_lt_def night_start_def night_end_def)
  have "fst (is_night (mock_env\<lparr>clock := (\<lambda>n. 79200000000)\<rparr>) (mock_state [] Map.empty)) =
      night_test (time_of 79200000000)"
    by (simp add: is_night_def now_def)
  with t code spec show ?thesis
    by simp
qed

section \<open>Persistence\<close>

text \<open>
  Claim C1: after a successful call of \<^verbatim>\<open>save_readings_to_file(path)\<close> the file
  holds the records that parsed from it before the call followed by the buffer, in that
  order, and the buffer is empty. The text written is the dump of that list; read back, it
  gives that list whenever the codec returns the list from its own dump.
\<close>

theorem save_appends_buffer_to_existing:
  assumes "save_readings_to_file env path s = Ok u s'"
  shows "files s' path =
           Some (File (dump_readings env (file_records env s path @ readings s))) \<and>
         readings s' = [] \<and>
         (parse_readings env (dump_readings env (file_records env s path @ readings s)) =
            Some (file_records env s path @ readings s) \<longrightarrow>
          file_records env s' path = file_records env s path @ readings s)"
  using assms
  unfolding save_readings_to_file_def file_records_def existing_data_def
  by (auto simp: Let_def split: option.splits node.splits if_splits)

theorem save_appends_buffer_to_existing_witness:
  "save_readings_to_file mock_env READINGS_FILE
     (mock_state [reading_B] [READINGS_FILE \<mapsto> File ''[A]'']) =
   Ok () \<lparr>readings = [], files = [READINGS_FILE \<mapsto> File ''[A, B]''],
          trace = [FileWrite READINGS_FILE ''[A, B]''], queries = 0, ticks = 0\<rparr> \<and>
   file_records mock_env (mock_state [reading_B] [READINGS_FILE \<mapsto> File ''[A]'']) READINGS_FILE
     = [reading_A] \<and>
   file_records mock_env \<lparr>readings = [], files = [READINGS_FILE \<mapsto> File ''[A, B]''],
          trace = [FileWrite READINGS_FILE ''[A, B]''], queries = 0, ticks = 0\<rparr> READINGS_FILE
     = [reading_A, reading_B]"
proof -
  let ?s = "mock_state [reading_B] [READINGS_FILE \<mapsto> File ''[A]'']"
  let ?s' = "\<lparr>readings = [], files = [READINGS_FILE \<mapsto> File ''[A, B]''],
          trace = [FileWrite READINGS_FILE ''[A, B]''], queries = 0, ticks = 0\<rparr>
          :: (unit, mock_json) state"
  have run: "save_readings_to_file mock_env READINGS_FILE ?s = Ok () ?s'"
    by (simp add: save_readings_to_file_def existing_data_def parse_readings_def
        dump_readings_def emit_def Let_def mock_defs)
  have old: "file_records mock_env ?s READINGS_FILE = [reading_A]"
    by (simp add: file_records_def existing_data_def parse_readings_def mock_defs)
  have buf: "readings ?s = [reading_B]"
    by (simp add: mock_state_def)
  have trip: "parse_readings mock_env (dump_readings mock_env ([reading_A] @ [reading_B])) =
      Some ([reading_A] @ [reading_B])"
    by (simp add: parse_readings_def dump_readings_def mock_defs)
  have "file_records mock_env ?s' READINGS_FILE =
      file_records mock_env ?s READINGS_FILE @ readings ?s"
    using save_appends_buffer_to_existing [OF run] trip unfolding old buf by blast
  then have "file_records mock_env ?s' READINGS_FILE = [reading_A, reading_B]"
    unfolding old buf by simp
  with run old show ?thesis
    by blast
qed

text \<open>
  Claim C3: when the text of the file does not parse as a sequence of readings, the call
  does not fail; the existing records are taken to be empty, and the file is overwritten
  with the dump of the buffer alone.
\<close>

theorem save_over_corrupt_file:
  assumes "files s path = Some (File content)"
      and "parse_readings env content = None"
  shows "save_readings_to_file env path s =
           Ok () (s\<lparr>files := (files s)(path \<mapsto> File (dump_readings env (readings s))),
                     trace := trace s @ [FileWrite path (dump_readings env (readings s))],
                     readings := []\<rparr>)"
  using assms
  by (simp add: save_readings_to_file_def existing_data_def emit_def Let_def)

theorem save_over_corrupt_file_witness:
  "parse_readings mock_env ''{oops'' = None \<and>
   parse_readings mock_env ''7'' = None \<and>
   save_readings_to_file mock_env READINGS_FILE
     (mock_state [reading_C] [READINGS_FILE \<mapsto> File ''{oops'']) =
   Ok () \<lparr>readings = [], files = [READINGS_FILE \<mapsto> File ''[C]''],
          trace = [FileWrite READINGS_FILE ''[C]''], queries = 0, ticks = 0\<rparr>"
proof -
  have there: "files (mock_state [reading_C] [READINGS_FILE \<mapsto> File ''{oops'']) READINGS_FILE =
      Some (File ''{oops'')"
    by (simp add: mock_state_def)
  have corrupt: "parse_readings mock_env ''{oops'' = None"
    by (simp add: parse_readings_def mock_defs)
  have number: "parse_readings mock_env ''7'' = None"
    by (simp add: parse_readings_def mock_defs)
  from save_over_corrupt_file [OF there corrupt] corrupt number show ?thesis
    by (simp add: dump_readings_def mock_defs)
qed

section \<open>Aggregation\<close>

text \<open>
  Claim C8: with the mode's aggregation unset, \<^verbatim>\<open>aggregate_readings\<close> returns with
  the state as it was: the same buffer, and nothing else changed.
\<close>

theorem aggregate_none_is_noop:
  assumes "aggregation (mode env) = None"
  shows "aggregate_readings env s = Ok () s"
  using assms by (simp add: aggregate_readings_def)

theorem aggregate_none_is_noop_witness:
  "aggregate_readings (mock_env\<lparr>mode := mock_mode\<lparr>aggregation := None\<rparr>\<rparr>)
     (mock_state [reading_A, reading_B] Map.empty) =
   Ok () (mock_state [reading_A, reading_B] Map.empty)"
  using aggregate_none_is_noop
    [of "mock_env\<lparr>mode := mock_mode\<lparr>aggregation := None\<rparr>\<rparr>"
        "mock_state [reading_A, reading_B] Map.empty"]
  by simp

lemma py_index_first: "xs \<noteq> [] \<Longrightarrow> py_index xs 0 = Inr (hd xs)"
  by (cases xs) (simp_all add: py_index_def)

lemma py_index_last: "xs \<noteq> [] \<Longrightarrow> py_index xs (- 1) = Inr (last xs)"
proof -
  assume ne: "xs \<noteq> []"
  then have len: "0 < length xs" by simp
  then have "nat (int (length xs) + - 1) = length xs - 1" by simp
  with ne len show ?thesis
    by (simp add: py_index_def last_conv_nth)
qed

lemma py_index_empty: "py_index [] i = Inl IndexError"
  by (simp add: py_index_def)

lemma foldl_add_start: "foldl (+) a xs = a + sum_list (xs :: real list)"
  by (induction xs arbitrary: a) simp_all

lemma py_sum_sum_list: "py_sum xs = sum_list xs"
  by (simp add: py_sum_def foldl_add_start)

text \<open>
  Claim C6: on a non-empty buffer, aggregation by \<^verbatim>\<open>'mean'\<close> hands the calculator
  one raw measurement whose concentrations are the sums over the buffer and whose time is
  t0 + (t0 + t_last) / 2, for the first and last timestamps t0 and t_last, and replaces
  the buffer by the calculator's reading of it (an exception of the calculator
  propagates, the buffer untouched).
\<close>

theorem aggregate_mean_sums:
  assumes "readings s \<noteq> []"
      and "aggregation (mode env) = Some ''mean''"
  shows "aggregate_readings env s =
           (case calculate_aqis_and_bands env
                   \<lparr>time = time (hd (readings s)) +
                             (time (hd (readings s)) + time (last (readings s))) / 2,
                    pm25 = sum_list (map pm25 (readings s)),
                    pm10 = sum_list (map pm10 (readings s))\<rparr> of
              Inl f \<Rightarrow> Raise (CollaboratorFault f) s
            | Inr r \<Rightarrow> Ok () (s\<lparr>readings := [r]\<rparr>))"
  using assms
  by (simp add: aggregate_readings_def py_index_first py_index_last raw_average_reading_def
      py_sum_sum_list)

theorem aggregate_mean_sums_witness:
  "aggregate_readings mock_env (mock_state [reading_A, reading_B] Map.empty) =
   Ok () (mock_state [\<lparr>time = 1 / 2, pm25 = 12, pm10 = 19, indices = ()\<rparr>] Map.empty)"
proof -
  have ne: "readings (mock_state [reading_A, reading_B] Map.empty) \<noteq> []"
    by (simp add: mock_state_def)
  have mean: "aggregation (mode mock_env) = Some ''mean''"
    by (simp add: mock_defs)
  from aggregate_mean_sums [OF ne mean] show ?thesis
    by (simp add: mock_defs)
qed

text \<open>
  Claim C7: on a buffer of at least one reading, aggregation by \<^verbatim>\<open>'mean'\<close> yields
  a buffer of exactly one reading. The only other way out is an exception of the
  calculator itself, on the raw measurement built from the buffer.
\<close>

theorem aggregate_mean_single_reading:
  assumes "readings s \<noteq> []"
      and "aggregation (mode env) = Some ''mean''"
  shows "(case aggregate_readings env s of
            Ok u s' \<Rightarrow> length (readings s') = 1
          | Raise e s' \<Rightarrow>
              (\<exists>f. e = CollaboratorFault f \<and>
                   calculate_aqis_and_bands env
                     (raw_average_reading (hd (readings s)) (last (readings s)) (readings s)) =
                   Inl f))"
  using assms
  by (simp add: aggregate_readings_def py_index_first py_index_last split: sum.splits)

theorem aggregate_mean_single_reading_witness:
  "length (readings (result_state
     (aggregate_readings mock_env (mock_state [reading_A, reading_B, reading_C] Map.empty)))) = 1 \<and>
   aggregate_readings mock_env (mock_state [reading_A, reading_B, reading_C] Map.empty) =
   Ok () (mock_state [\<lparr>time = 1, pm25 = 15, pm10 = 23, indices = ()\<rparr>] Map.empty)"
proof -
  let ?s = "mock_state [reading_A, reading_B, reading_C] Map.empty"
  have ne: "readings ?s \<noteq> []"
    by (simp add: mock_state_def)
  have mean: "aggregation (mode mock_env) = Some ''mean''"
    by (simp add: mock_defs)
  have run: "aggregate_readings mock_env ?s =
      Ok () (mock_state [\<lparr>time = 1, pm25 = 15, pm10 = 23, indices = ()\<rparr>] Map.empty)"
    by (simp add: aggregate_readings_def py_index_def raw_average_reading_def py_sum_def
        mock_defs)
  from aggregate_mean_single_reading [OF ne mean] run show ?thesis
    by (simp add: result_state_def)
qed

text \<open>
  Claim C10: aggregation by \<^verbatim>\<open>'mean'\<close> indexes the buffer at 0 and at -1. On a
  non-empty buffer both are in bounds (the first and the last reading), no
  \<^verbatim>\<open>IndexError\<close> is raised, and the call returns once the calculator has; on an
  empty buffer the call raises \<^verbatim>\<open>IndexError\<close> and is not a no-op.
\<close>

theorem aggregate_mean_needs_readings:
  assumes "aggregation (mode env) = Some ''mean''"
  shows "(readings s \<noteq> [] \<longrightarrow>
            py_index (readings s) 0 = Inr (hd (readings s)) \<and>
            py_index (readings s) (- 1) = Inr (last (readings s)) \<and>
            (\<forall>s'. aggregate_readings env s \<noteq> Raise IndexError s') \<and>
            (\<forall>r. calculate_aqis_and_bands env
                    (raw_average_reading (hd (readings s)) (last (readings s)) (readings s)) =
                  Inr r \<longrightarrow>
                 aggregate_readings env s = Ok () (s\<lparr>readings := [r]\<rparr>))) \<and>
         (readings s = [] \<longrightarrow> aggregate_readings env s = Raise IndexError s)"
  using assms
  by (simp add: aggregate_readings_def py_index_first py_index_last py_index_empty
      split: sum.splits)

theorem aggregate_mean_needs_readings_witness:
  "aggregate_readings mock_env (mock_state [] Map.empty) =
     Raise IndexError (mock_state [] Map.empty) \<and>
   aggregate_readings mock_env (mock_state [reading_C] Map.empty) =
     Ok () (mock_state [\<lparr>time = 4, pm25 = 3, pm10 = 4, indices = ()\<rparr>] Map.empty)"
proof -
  have mean: "aggregation (mode mock_env) = Some ''mean''"
    by (simp add: mock_defs)
  have empty: "readings (mock_state [] Map.empty) = []"
    by (simp add: mock_state_def)
  have one: "readings (mock_state [reading_C] Map.empty) \<noteq> []"
    by (simp add: mock_state_def)
  have calc: "calculate_aqis_and_bands mock_env
      (raw_average_reading (hd (readings (mock_state [reading_C] Map.empty)))
         (last (readings (mock_state [reading_C] Map.empty)))
         (readings (mock_state [reading_C] Map.empty))) =
      Inr \<lparr>time = 4, pm25 = 3, pm10 = 4, indices = ()\<rparr>"
    by (simp add: raw_average_reading_def py_sum_def mock_defs)
  from aggregate_mean_needs_readings [OF mean, of "mock_state [] Map.empty"] empty
  have a: "aggregate_readings mock_env (mock_state [] Map.empty) =
     Raise IndexError (mock_state [] Map.empty)"
    by blast
  from aggregate_mean_needs_readings [OF mean, of "mock_state [reading_C] Map.empty"] one calc
  have "aggregate_readings mock_env (mock_state [reading_C] Map.empty) =
     Ok () ((mock_state [reading_C] Map.empty)
       \<lparr>readings := [\<lparr>time = 4, pm25 = 3, pm10 = 4, indices = ()\<rparr>]\<rparr>)"
    by blast
  with a show ?thesis
    by (simp add: mock_state_def)
qed

section \<open>The monitoring cycle\<close>

lemma is_night_never: "is_night env s = (False, s\<lparr>ticks := Suc (ticks s)\<rparr>)"
  by (simp add: is_night_def now_def night_test_never)





section \<open>Teardown\<close>



section \<open>Windowed mode without a monitoring duration\<close>

lemma windowed_iteration_unset:
  assumes "\<not> duration_set (monitoring_duration (mode env))"
  shows "windowed_iteration env start_time s =
           (case continuous_iteration env s of
              Raise e s1 \<Rightarrow> Raise e s1
            | Ok u s1 \<Rightarrow> Ok start_time s1)"
  using assms
  by (simp add: windowed_iteration_def continuous_iteration_def split: prod.splits)

lemma windowed_loop_unset:
  assumes "\<not> duration_set (monitoring_duration (mode env))"
  shows "windowed_loop env n start_time s = continuous_loop env n s"
proof (induction n arbitrary: s)
  case 0
  show ?case by simp
next
  case (Suc n)
  show ?case
    by (simp add: windowed_iteration_unset [OF assms] Suc.IH split: result.splits)
qed

lemma take_reading_sleep_time:
  "take_reading (env\<lparr>mode := (mode env)\<lparr>sleep_time := k\<rparr>\<rparr>) s = take_reading env s"
  by (simp add: take_reading_def Let_def split: sum.splits)

lemma continuous_iteration_sleep_time:
  "continuous_iteration (env\<lparr>mode := (mode env)\<lparr>sleep_time := k\<rparr>\<rparr>) s =
   continuous_iteration env s"
  by (simp add: continuous_iteration_def take_reading_sleep_time is_night_never)

lemma continuous_loop_sleep_time:
  "continuous_loop (env\<lparr>mode := (mode env)\<lparr>sleep_time := k\<rparr>\<rparr>) n s = continuous_loop env n s"
  by (induction n arbitrary: s)
    (simp_all add: continuous_iteration_sleep_time split: result.splits)

lemma take_reading_trace:
  "\<exists>evs. trace (result_state (take_reading env s)) = trace s @ evs \<and>
         set evs \<subseteq> reading_events env"
  by (simp add: take_reading_def result_state_def reading_events_def time_sleep_def emit_def
      Let_def split: sum.splits)

lemma continuous_iteration_trace:
  "\<exists>evs. trace (result_state (continuous_iteration env s)) = trace s @ evs \<and>
         set evs \<subseteq> reading_events env"
proof (cases "night_monitoring (mode env)")
  case True
  then show ?thesis
    using take_reading_trace [of env s] by (simp add: continuous_iteration_def)
next
  case False
  then show ?thesis
    using take_reading_trace [of env "s\<lparr>ticks := Suc (ticks s)\<rparr>"]
    by (simp add: continuous_iteration_def is_night_never)
qed

lemma continuous_loop_trace:
  "\<exists>evs. trace (outcome_state (continuous_loop env n s)) = trace s @ evs \<and>
         set evs \<subseteq> reading_events env"
proof (induction n arbitrary: s)
  case 0
  show ?case by (simp add: outcome_state_def)
next
  case (Suc n)
  obtain evs where step: "trace (result_state (continuous_iteration env s)) = trace s @ evs"
    and evs: "set evs \<subseteq> reading_events env"
    using continuous_iteration_trace by blast
  show ?case
  proof (cases "continuous_iteration env s")
    case (Raise e s1)
    with step evs show ?thesis
      by (auto simp: result_state_def outcome_state_def)
  next
    case (Ok u s1)
    with step have s1: "trace s1 = trace s @ evs"
      by (simp add: result_state_def)
    from Suc.IH [of s1] obtain evs' where
      "trace (outcome_state (continuous_loop env n s1)) = trace s1 @ evs'"
      and "set evs' \<subseteq> reading_events env"
      by blast
    with s1 evs Ok show ?thesis
      by (intro exI [of _ "evs @ evs'"]) simp
  qed
qed

text \<open>
  Claim C9: in a mode with a positive sleep time and no monitoring duration, every
  iteration of the loop takes a reading directly, subject only to the night gate, and the
  sleep time plays no part: the run is the same for every positive sleep time, the sensor
  is never put to sleep, and the only waits are those of \<^verbatim>\<open>take_reading\<close> for the
  measurement period.
\<close>

theorem windowed_without_duration_never_sleeps:
  assumes "0 < sleep_time (mode env)"
      and "monitoring_duration (mode env) = None"
  shows "windowed_iteration env start_time s =
           (if night_monitoring (mode env) then
              (case take_reading env s of
                 Raise e s2 \<Rightarrow> Raise e s2
               | Ok u s2 \<Rightarrow> Ok start_time s2)
            else
              (case is_night env s of
                 (night, s1) \<Rightarrow>
                   if night then Ok start_time s1
                   else
                     (case take_reading env s1 of
                        Raise e s2 \<Rightarrow> Raise e s2
                      | Ok u s2 \<Rightarrow> Ok start_time s2))) \<and>
         (\<forall>k. 0 < k \<longrightarrow>
              monitor_body (env\<lparr>mode := (mode env)\<lparr>sleep_time := k\<rparr>\<rparr>) n start_time s =
              monitor_body env n start_time s) \<and>
         SensorSleep \<notin> set (events_since s (outcome_state (monitor_body env n start_time s))) \<and>
         (\<forall>d. TimeSleep d \<in>
                set (events_since s (outcome_state (monitor_body env n start_time s))) \<longrightarrow>
              d = measurement_period (mode env))"
proof -
  from assms(2) have unset: "\<not> duration_set (monitoring_duration (mode env))"
    by (simp add: duration_set_def)
  have iteration: "windowed_iteration env start_time s =
           (if night_monitoring (mode env) then
              (case take_reading env s of
                 Raise e s2 \<Rightarrow> Raise e s2
               | Ok u s2 \<Rightarrow> Ok start_time s2)
            else
              (case is_night env s of
                 (night, s1) \<Rightarrow>
                   if night then Ok start_time s1
                   else
                     (case take_reading env s1 of
                        Raise e s2 \<Rightarrow> Raise e s2
                      | Ok u s2 \<Rightarrow> Ok start_time s2)))"
    using unset by (simp add: windowed_iteration_def split: prod.splits)
  have body: "monitor_body env n start_time s = continuous_loop env n s"
    using assms(1) by (simp add: monitor_body_def windowed_loop_unset [OF unset])
  have other: "monitor_body (env\<lparr>mode := (mode env)\<lparr>sleep_time := k\<rparr>\<rparr>) n start_time s =
      monitor_body env n start_time s" if "0 < k" for k
  proof -
    let ?env = "env\<lparr>mode := (mode env)\<lparr>sleep_time := k\<rparr>\<rparr>"
    from unset have "\<not> duration_set (monitoring_duration (mode ?env))"
      by simp
    then have "windowed_loop ?env n start_time s = continuous_loop ?env n s"
      by (rule windowed_loop_unset)
    with that show ?thesis
      by (simp add: monitor_body_def body [symmetric] continuous_loop_sleep_time)
  qed
  obtain evs where evs: "trace (outcome_state (continuous_loop env n s)) = trace s @ evs"
    and sub: "set evs \<subseteq> reading_events env"
    using continuous_loop_trace by blast
  from evs have since: "events_since s (outcome_state (monitor_body env n start_time s)) = evs"
    by (simp add: events_since_def body)
  from sub have nosleep: "SensorSleep \<notin> set evs"
    by (auto simp: reading_events_def)
  from sub have waits: "d = measurement_period (mode env)" if "TimeSleep d \<in> set evs" for d
    using that by (auto simp: reading_events_def)
  from iteration other nosleep waits show ?thesis
    unfolding since by blast
qed


theorem windowed_without_duration_never_sleeps_witness:
  "monitor_body (mock_env\<lparr>mode := mock_mode\<lparr>monitoring_duration := None\<rparr>\<rparr>) 3 0
     (mock_state [] Map.empty) =
     Raised (CollaboratorFault 3)
       \<lparr>readings = [reading_A, reading_B], files = Map.empty,
        trace = [SensorQuery, PrintDict (MRecord 0 5 10), TimeSleep 1,
                 SensorQuery, PrintDict (MRecord 1 7 9), TimeSleep 1,
                 SensorQuery],
        queries = 3, ticks = 3\<rparr> \<and>
   monitor_body
     (mock_env\<lparr>mode := mock_mode\<lparr>monitoring_duration := None, sleep_time := 60\<rparr>\<rparr>) 3 0
     (mock_state [] Map.empty) =
   monitor_body (mock_env\<lparr>mode := mock_mode\<lparr>monitoring_duration := None\<rparr>\<rparr>) 3 0
     (mock_state [] Map.empty) \<and>
   SensorSleep \<notin>
     set (events_since (mock_state [] Map.empty)
            (outcome_state
               (monitor_body (mock_env\<lparr>mode := mock_mode\<lparr>monitoring_duration := None\<rparr>\<rparr>) 3 0
                  (mock_state [] Map.empty)))) \<and>
   TimeSleep 5 \<notin>
     set (events_since (mock_state [] Map.empty)
            (outcome_state
               (monitor_body (mock_env\<lparr>mode := mock_mode\<lparr>monitoring_duration := None\<rparr>\<rparr>) 3 0
                  (mock_state [] Map.empty))))"
proof -
  let ?env = "mock_env\<lparr>mode := mock_mode\<lparr>monitoring_duration := None\<rparr>\<rparr>"
  let ?s = "mock_state [] Map.empty"
  have windowed: "0 < sleep_time (mode ?env)"
    by (simp add: mock_defs)
  have unset: "monitoring_duration (mode ?env) = None"
    by simp
  have period: "measurement_period (mode ?env) = 1"
    by (simp add: mock_defs)
  have run: "monitor_body ?env 3 0 ?s =
     Raised (CollaboratorFault 3)
       \<lparr>readings = [reading_A, reading_B], files = Map.empty,
        trace = [SensorQuery, PrintDict (MRecord 0 5 10), TimeSleep 1,
                 SensorQuery, PrintDict (MRecord 1 7 9), TimeSleep 1,
                 SensorQuery],
        queries = 3, ticks = 3\<rparr>"
    by (simp add: monitor_body_def eval_nat_numeral windowed_iteration_def is_night_never
        duration_set_def take_reading_def time_sleep_def emit_def mock_defs)
  note inst = windowed_without_duration_never_sleeps [OF windowed unset, of 0 ?s 3]
  from inst have "monitor_body (?env\<lparr>mode := (mode ?env)\<lparr>sleep_time := 60\<rparr>\<rparr>) 3 0 ?s =
      monitor_body ?env 3 0 ?s"
    by simp
  then have other: "monitor_body
     (mock_env\<lparr>mode := mock_mode\<lparr>monitoring_duration := None, sleep_time := 60\<rparr>\<rparr>) 3 0 ?s =
      monitor_body ?env 3 0 ?s"
    by simp
  from inst have nosleep:
    "SensorSleep \<notin> set (events_since ?s (outcome_state (monitor_body ?env 3 0 ?s)))"
    by blast
  from inst have "TimeSleep 5 \<in> set (events_since ?s (outcome_state (monitor_body ?env 3 0 ?s)))
      \<longrightarrow> (5 :: nat) = measurement_period (mode ?env)"
    by blast
  with period have nowait:
    "TimeSleep 5 \<notin> set (events_since ?s (outcome_state (monitor_body ?env 3 0 ?s)))"
    by auto
  from run other nosleep nowait show ?thesis
    by blast
qed

end
